theory Spec2Isabelle
  imports Complex_Main "HOL-Library.Sublist"
begin

section \<open>Text\<close>

text \<open>
  A Python \<open>str\<close> is a sequence of code points. The model covers the code points below
  256, one \<open>char\<close> each; every literal of the source (the keyword tables contain the two
  code points 195 and 169 in \<open>clich..\<close>) is in that range. On this range
  \<open>str.lower\<close> moves \<open>A\<close>..\<open>Z\<close> and the code points 192..222 except 215 up by 32
  and keeps the length, \<open>\d\<close> of module \<open>re\<close> matches \<open>0\<close>..\<open>9\<close> only, and
  \<open>str.split()\<close> separates at the code points 9..13, 28..32, 133 and 160.
\<close>

type_synonym pystr = string

datatype py_error = ZeroDivisionError | KeyError | ValueError

definition bind_err :: "py_error + 'a \<Rightarrow> ('a \<Rightarrow> py_error + 'b) \<Rightarrow> py_error + 'b" where
  "bind_err m f = (case m of Inl e \<Rightarrow> Inl e | Inr x \<Rightarrow> f x)"

definition lower_char :: "char \<Rightarrow> char" where
  "lower_char c =
     (let n = (of_char c :: nat)
      in if (65 \<le> n \<and> n \<le> 90) \<or> (192 \<le> n \<and> n \<le> 222 \<and> n \<noteq> 215)
         then char_of (n + 32) else c)"

definition lower :: "pystr \<Rightarrow> pystr" where
  "lower s = map lower_char s"

definition is_digit :: "char \<Rightarrow> bool" where
  "is_digit c = (let n = (of_char c :: nat) in 48 \<le> n \<and> n \<le> 57)"

definition is_space :: "char \<Rightarrow> bool" where
  "is_space c =
     (let n = (of_char c :: nat)
      in (9 \<le> n \<and> n \<le> 13) \<or> (28 \<le> n \<and> n \<le> 32) \<or> n = 133 \<or> n = 160)"

text \<open>\<open>kw in text\<close>: the keyword occurs as a contiguous piece of the text.\<close>

fun str_contains :: "pystr \<Rightarrow> pystr \<Rightarrow> bool" where
  "str_contains kw [] = (kw = [])"
| "str_contains kw (c # cs) = (prefix kw (c # cs) \<or> str_contains kw cs)"

text \<open>\<open>any(kw in text for kw in keywords)\<close>\<close>

definition any_in :: "pystr list \<Rightarrow> pystr \<Rightarrow> bool" where
  "any_in keywords text = list_ex (\<lambda>kw. str_contains kw text) keywords"

text \<open>\<open>text.split()\<close>: the maximal runs of characters that are not white space.\<close>

fun words_from :: "pystr \<Rightarrow> pystr \<Rightarrow> pystr list" where
  "words_from w [] = (if w = [] then [] else [w])"
| "words_from w (c # cs) =
     (if is_space c then (if w = [] then [] else [w]) @ words_from [] cs
      else words_from (w @ [c]) cs)"

definition py_split :: "pystr \<Rightarrow> pystr list" where
  "py_split s = words_from [] s"

text \<open>\<open>d[k]\<close> on a dictionary kept in insertion order.\<close>

definition dict_get :: "(string \<times> 'v) list \<Rightarrow> string \<Rightarrow> py_error + 'v" where
  "dict_get d k = (case map_of d k of None \<Rightarrow> Inl KeyError | Some v \<Rightarrow> Inr v)"

section \<open>Regular expressions\<close>

text \<open>
  The fragment of \<open>re\<close> that the source uses: literal characters, \<open>\d\<close>, concatenation,
  \<open>|\<close> and \<open>+\<close>. \<open>re.search\<close> is used for its truth value only, so the model decides
  whether some piece of the text matches, by derivatives.
\<close>

datatype regex =
    Never
  | Empty
  | Chr char
  | Digit
  | Alt regex regex
  | Seq regex regex
  | Star regex

definition Plus :: "regex \<Rightarrow> regex" where
  "Plus r = Seq r (Star r)"

fun Lit :: "pystr \<Rightarrow> regex" where
  "Lit [] = Empty"
| "Lit (c # cs) = Seq (Chr c) (Lit cs)"

fun nullable :: "regex \<Rightarrow> bool" where
  "nullable Never = False"
| "nullable Empty = True"
| "nullable (Chr c) = False"
| "nullable Digit = False"
| "nullable (Alt r s) = (nullable r \<or> nullable s)"
| "nullable (Seq r s) = (nullable r \<and> nullable s)"
| "nullable (Star r) = True"

fun deriv :: "char \<Rightarrow> regex \<Rightarrow> regex" where
  "deriv x Never = Never"
| "deriv x Empty = Never"
| "deriv x (Chr c) = (if x = c then Empty else Never)"
| "deriv x Digit = (if is_digit x then Empty else Never)"
| "deriv x (Alt r s) = Alt (deriv x r) (deriv x s)"
| "deriv x (Seq r s) =
     (if nullable r then Alt (Seq (deriv x r) s) (deriv x s) else Seq (deriv x r) s)"
| "deriv x (Star r) = Seq (deriv x r) (Star r)"

text \<open>\<open>re.match\<close>: some piece starting at the first character matches.\<close>

fun re_match :: "regex \<Rightarrow> pystr \<Rightarrow> bool" where
  "re_match r [] = nullable r"
| "re_match r (c # cs) = (nullable r \<or> re_match (deriv c r) cs)"

text \<open>\<open>re.search\<close>: some piece starting anywhere matches.\<close>

fun re_search :: "regex \<Rightarrow> pystr \<Rightarrow> bool" where
  "re_search r [] = re_match r []"
| "re_search r (c # cs) = (re_match r (c # cs) \<or> re_search r cs)"

text \<open>The words of a regular expression, for stating what a search finds.\<close>

fun lang :: "regex \<Rightarrow> pystr set" where
  "lang Never = {}"
| "lang Empty = {[]}"
| "lang (Chr c) = {[c]}"
| "lang Digit = {[d] |d. is_digit d}"
| "lang (Alt r s) = lang r \<union> lang s"
| "lang (Seq r s) = {u @ v |u v. u \<in> lang r \<and> v \<in> lang s}"
| "lang (Star r) = {concat ws |ws. set ws \<subseteq> lang r}"

section \<open>The taxonomies\<close>

definition EXPECTED_CV_ELEMENTS :: "(string \<times> pystr list) list" where
  "EXPECTED_CV_ELEMENTS =
    [(''career_objective'', [''career objective'', ''objective'', ''summary'', ''professional summary'']),
     (''skills'', [''skills'', ''technical skills'', ''competencies'', ''expertise'']),
     (''education'', [''education'', ''academic'', ''degree'', ''university'', ''college'']),
     (''experience'', [''experience'', ''work history'', ''employment'', ''professional experience'']),
     (''contact'', [''email'', ''phone'', ''address'', ''contact'', ''linkedin'']),
     (''achievements'', [''achievement'', ''award'', ''accomplishment'', ''certification'']),
     (''projects'', [''project'', ''portfolio''])]"

definition COMMON_CV_ISSUES :: "(string \<times> pystr list) list" where
  "COMMON_CV_ISSUES =
    [(''typos'', [''typo'', ''spelling'', ''grammar'', ''grammatical'']),
     (''vague_objective'', [''vague'', ''generic'', ''unclear objective'', ''bland objective'']),
     (''skill_organization'', [''organize skills'', ''categorize skills'', ''skill structure'']),
     (''no_metrics'', [''quantif'', ''metric'', ''number'', ''measurable'', ''achievement'']),
     (''buzzwords'', [''buzzword'', ''clich'' @ [char_of (195 :: nat), char_of (169 :: nat)],
                      ''jargon'', ''overused'']),
     (''formatting'', [''format'', ''layout'', ''structure'', ''consistency'']),
     (''length'', [''too long'', ''too short'', ''concise'', ''verbose'']),
     (''relevance'', [''relevant'', ''irrelevant'', ''focus''])]"

section \<open>The ground-truth detector\<close>

text \<open>The pattern \<open>\d+%|\d+x|increased|reduced|improved \d+\<close> of \<open>_detect_cv_issues\<close>.\<close>

definition metrics_pattern :: regex where
  "metrics_pattern =
     Alt (Seq (Plus Digit) (Chr (CHR ''%'')))
    (Alt (Seq (Plus Digit) (Chr (CHR ''x'')))
    (Alt (Lit ''increased'')
    (Alt (Lit ''reduced'')
         (Seq (Lit ''improved '') (Plus Digit)))))"

definition buzzwords :: "pystr list" where
  "buzzwords =
     [''synergy'', ''innovative'', ''dynamic'', ''results-driven'', ''team player'', ''hard worker'']"

text \<open>
  \<open>_detect_cv_issues\<close>. Each rule appends to \<open>issues\<close> or leaves it; the rules run in
  the order of the source.
\<close>

definition vague_rule :: "pystr \<Rightarrow> string list \<Rightarrow> string list" where
  "vague_rule cv_lower issues =
     (if any_in [''seeking'', ''looking for'', ''opportunity''] cv_lower
      then (if \<not> any_in [''specific'', ''specialize'', ''expert in''] cv_lower
            then issues @ [''vague_objective''] else issues)
      else issues)"

definition metrics_rule :: "pystr \<Rightarrow> string list \<Rightarrow> string list" where
  "metrics_rule cv_text issues =
     (if \<not> re_search metrics_pattern cv_text then issues @ [''no_metrics''] else issues)"

definition buzzword_rule :: "pystr \<Rightarrow> string list \<Rightarrow> string list" where
  "buzzword_rule cv_lower issues =
     (if length (filter (\<lambda>bw. str_contains bw cv_lower) buzzwords) \<ge> 2
      then issues @ [''buzzwords''] else issues)"

definition length_rule :: "pystr \<Rightarrow> string list \<Rightarrow> string list" where
  "length_rule cv_text issues =
     (let word_count = length (py_split cv_text)
      in if word_count < 200 then issues @ [''length'']
         else if word_count > 1000 then issues @ [''length'']
         else issues)"

definition sections_rule :: "pystr \<Rightarrow> string list \<Rightarrow> py_error + string list" where
  "sections_rule cv_lower issues =
     bind_err (dict_get EXPECTED_CV_ELEMENTS ''skills'') (\<lambda>skills_kws.
     let has_skills = any_in skills_kws cv_lower in
     bind_err (dict_get EXPECTED_CV_ELEMENTS ''experience'') (\<lambda>experience_kws.
     let has_experience = any_in experience_kws cv_lower in
     Inr (if \<not> has_skills \<or> \<not> has_experience then issues @ [''formatting''] else issues)))"

definition detect_cv_issues :: "pystr \<Rightarrow> py_error + string list" where
  "detect_cv_issues cv_text =
     (let issues = [];
          cv_lower = lower cv_text;
          issues = vague_rule cv_lower issues;
          issues = metrics_rule cv_text issues;
          issues = buzzword_rule cv_lower issues;
          issues = length_rule cv_text issues
      in sections_rule cv_lower issues)"

section \<open>Section coverage\<close>

text \<open>
  Python's \<open>/\<close> on numbers raises on a zero divisor. The quotients of the source are
  floats; the model computes them as exact rationals.
\<close>

definition truediv :: "rat \<Rightarrow> rat \<Rightarrow> py_error + rat" where
  "truediv a b = (if b = 0 then Inl ZeroDivisionError else Inr (a / b))"





section \<open>Issue detection metrics\<close>

text \<open>
  \<open>missed_issues\<close> and \<open>extra_mentions\<close> are lists made from sets, in an order the
  source does not fix; the model keeps them as sets.
\<close>

record detection =
  precision :: rat
  recall :: rat
  f1_score :: rat
  true_positives :: nat
  false_positives :: nat
  false_negatives :: nat
  ground_truth_issues :: "string list"
  detected_issues :: "string list"
  missed_issues :: "string set"
  extra_mentions :: "string set"

text \<open>The loop over \<open>COMMON_CV_ISSUES.items()\<close> that collects the categories mentioned.\<close>

fun mentioned :: "(string \<times> pystr list) list \<Rightarrow> pystr \<Rightarrow> string list" where
  "mentioned [] critique_lower = []"
| "mentioned ((issue_category, keywords) # rest) critique_lower =
     (if any_in keywords critique_lower
      then issue_category # mentioned rest critique_lower
      else mentioned rest critique_lower)"

definition calculate_issue_detection_metrics ::
  "pystr \<Rightarrow> pystr \<Rightarrow> string list option \<Rightarrow> py_error + detection" where
  "calculate_issue_detection_metrics cv_text critique ground_truth =
     (let critique_lower = lower critique
      in bind_err (case ground_truth of
                     None \<Rightarrow> detect_cv_issues cv_text
                   | Some given \<Rightarrow> Inr given) (\<lambda>ground_truth_issues.
         let detected = mentioned COMMON_CV_ISSUES critique_lower;
             tp = card (set ground_truth_issues \<inter> set detected);
             fp = card (set detected - set ground_truth_issues);
             fn = card (set ground_truth_issues - set detected)
         in bind_err (if tp + fp > 0 then truediv (of_nat tp) (of_nat (tp + fp))
                      else Inr 0) (\<lambda>p.
            bind_err (if tp + fn > 0 then truediv (of_nat tp) (of_nat (tp + fn))
                      else Inr 0) (\<lambda>r.
            bind_err (if p + r > 0 then truediv (2 * (p * r)) (p + r) else Inr 0) (\<lambda>f1.
            Inr \<lparr>precision = p, recall = r, f1_score = f1,
                 true_positives = tp, false_positives = fp, false_negatives = fn,
                 ground_truth_issues = ground_truth_issues,
                 detected_issues = detected,
                 missed_issues = set ground_truth_issues - set detected,
                 extra_mentions = set detected - set ground_truth_issues\<rparr>)))))"

section \<open>Evaluating all models\<close>







section \<open>The sample inputs of \<open>cv_processor.main\<close>\<close>

definition sample_cv_text :: pystr where
  "sample_cv_text =
     ''\<newline>''
   @ ''        CAREER OBJECTIVE:\<newline>''
   @ ''        Seeking a challenging position in data science.\<newline>''
   @ ''\<newline>''
   @ ''        SKILLS:\<newline>''
   @ ''        Python, Machine Learning, Data Analysis\<newline>''
   @ ''\<newline>''
   @ ''        EDUCATION:\<newline>''
   @ ''        University of Example - B.Sc. Computer Science (2020)\<newline>''
   @ ''\<newline>''
   @ ''        WORK EXPERIENCE:\<newline>''
   @ ''        Data Analyst at Company XYZ (2020-Present)\<newline>''
   @ ''        - Analyzed data\<newline>''
   @ ''        - Created reports\<newline>''
   @ ''        - Worked with team\<newline>''
   @ ''        ''"

definition mock_critiques :: "(string \<times> pystr) list" where
  "mock_critiques =
    [(''gentle'', ''Your CV shows good foundation. Consider adding metrics to quantify achievements.''),
     (''medium'', ''Missing quantifiable results. Experience section is too vague. Skills need organization.''),
     (''brutal'', ''Generic buzzwords everywhere. '' @ [CHR 0x27] @ ''Analyzed data'' @ [CHR 0x27]
                   @ '' - what data? How? This needs metrics.'')]"

section \<open>Inputs of the scenarios\<close>

text \<open>The critique of Scenario B; it is the \<open>medium\<close> entry of the mock critiques.\<close>

definition scenario_B_critique :: pystr where
  "scenario_B_critique =
     ''Missing quantifiable results. Experience section is too vague. Skills need organization.''"

text \<open>A document of \<open>n\<close> words, for Scenario D.\<close>

definition word_doc :: "nat \<Rightarrow> pystr" where
  "word_doc n = concat (replicate n ''word '')"


section \<open>Basic facts\<close>

lemma bind_err_Inr: "bind_err (Inr x) k = k x"
  by (simp add: bind_err_def)

lemma guarded_ratio:
  fixes a b :: nat
  shows "bind_err (if a + b > 0 then truediv (of_nat a) (of_nat (a + b)) else Inr 0) k
         = k (if a + b > 0 then of_nat a / of_nat (a + b) else 0)"
  by (simp add: bind_err_def truediv_def)

lemma guarded_f1:
  fixes p r :: rat
  shows "bind_err (if p + r > 0 then truediv (2 * (p * r)) (p + r) else Inr 0) k
         = k (if p + r > 0 then 2 * (p * r) / (p + r) else 0)"
  by (simp add: bind_err_def truediv_def)

text \<open>The detector never fails: both sections it looks up are in the table.\<close>

lemma detect_cv_issues_eq:
  "detect_cv_issues cv =
     Inr (let issues = length_rule cv (buzzword_rule (lower cv)
                         (metrics_rule cv (vague_rule (lower cv) [])))
          in if \<not> any_in [''skills'', ''technical skills'', ''competencies'', ''expertise'']
                    (lower cv)
                \<or> \<not> any_in [''experience'', ''work history'', ''employment'',
                            ''professional experience''] (lower cv)
             then issues @ [''formatting''] else issues)"
  by (simp add: detect_cv_issues_def sections_rule_def dict_get_def EXPECTED_CV_ELEMENTS_def
      bind_err_def Let_def)

lemma ground_truth_total:
  "\<exists>G. (case gt of None \<Rightarrow> detect_cv_issues cv | Some given \<Rightarrow> Inr given) = Inr G"
  by (cases gt) (simp_all add: detect_cv_issues_eq)

text \<open>The scorer never fails either, and its result has this closed form.\<close>

lemma metrics_Inr:
  assumes gt: "(case gt of None \<Rightarrow> detect_cv_issues cv | Some given \<Rightarrow> Inr given) = Inr G"
  shows "calculate_issue_detection_metrics cv crit gt =
     Inr (let D = mentioned COMMON_CV_ISSUES (lower crit);
              tp = card (set G \<inter> set D);
              fp = card (set D - set G);
              fn = card (set G - set D);
              p = (if tp + fp > 0 then of_nat tp / of_nat (tp + fp) else 0);
              r = (if tp + fn > 0 then of_nat tp / of_nat (tp + fn) else 0)
          in \<lparr>precision = p, recall = r,
              f1_score = (if p + r > 0 then 2 * (p * r) / (p + r) else 0),
              true_positives = tp, false_positives = fp, false_negatives = fn,
              ground_truth_issues = G, detected_issues = D,
              missed_issues = set G - set D, extra_mentions = set D - set G\<rparr>)"
  unfolding calculate_issue_detection_metrics_def
  by (simp only: gt Let_def bind_err_Inr guarded_ratio guarded_f1)

lemma card_inter_diff:
  fixes A B :: "'a set"
  assumes "finite A"
  shows "card (A \<inter> B) + card (A - B) = card A"
proof -
  have "card (A - B) = card A - card (A \<inter> B)"
    using assms by (simp add: card_Diff_subset_Int)
  moreover have "card (A \<inter> B) \<le> card A"
    using assms by (simp add: card_mono)
  ultimately show ?thesis by simp
qed

section \<open>The confusion counts\<close>

text \<open>
  Claim C5. Whatever the document, the critique and the ground truth (given or derived),
  the scorer returns a result in which the true positives and the false negatives add up
  to the number of distinct ground-truth issues, and the true positives and the false
  positives add up to the number of distinct detected issues.
\<close>

theorem confusion_counts_partition:
  "\<exists>r. calculate_issue_detection_metrics cv crit gt = Inr r
      \<and> true_positives r + false_negatives r = card (set (ground_truth_issues r))
      \<and> true_positives r + false_positives r = card (set (detected_issues r))"
proof -
  obtain G where G: "(case gt of None \<Rightarrow> detect_cv_issues cv | Some given \<Rightarrow> Inr given) = Inr G"
    using ground_truth_total by blast
  define D where "D = mentioned COMMON_CV_ISSUES (lower crit)"
  note m = metrics_Inr [OF G, of crit, folded D_def]
  have a: "card (set G \<inter> set D) + card (set G - set D) = card (set G)"
    by (simp add: card_inter_diff)
  have "card (set D \<inter> set G) + card (set D - set G) = card (set D)"
    by (simp add: card_inter_diff)
  then have b: "card (set G \<inter> set D) + card (set D - set G) = card (set D)"
    by (simp add: Int_commute)
  show ?thesis
    using a b by (simp add: m Let_def)
qed

text \<open>
  Claim C10. When the caller supplies the ground truth, the result of the scorer is the
  same for any two documents: the document text is not consulted.
\<close>

theorem supplied_ground_truth_ignores_document:
  "calculate_issue_detection_metrics d1 c (Some G)
     = calculate_issue_detection_metrics d2 c (Some G)"
  by (simp add: calculate_issue_detection_metrics_def)

theorem supplied_ground_truth_ignores_document_witness:
  "calculate_issue_detection_metrics sample_cv_text scenario_B_critique (Some [''no_metrics''])
     = calculate_issue_detection_metrics [] scenario_B_critique (Some [''no_metrics''])"
  by (rule supplied_ground_truth_ignores_document)

section \<open>A perfect detection\<close>

text \<open>
  Claim C8. When the scorer returns a result whose ground-truth list is not empty and
  whose detected issues are, as a set, the ground-truth issues, then precision, recall
  and F1 are all 1.
\<close>

theorem perfect_detection_scores_one:
  assumes r: "calculate_issue_detection_metrics cv crit gt = Inr r"
    and ne: "ground_truth_issues r \<noteq> []"
    and eq: "set (detected_issues r) = set (ground_truth_issues r)"
  shows "precision r = 1 \<and> recall r = 1 \<and> f1_score r = 1"
proof -
  obtain G where G: "(case gt of None \<Rightarrow> detect_cv_issues cv | Some given \<Rightarrow> Inr given) = Inr G"
    using ground_truth_total by blast
  define D where "D = mentioned COMMON_CV_ISSUES (lower crit)"
  note m = metrics_Inr [OF G, of crit, folded D_def]
  from r m have gt: "ground_truth_issues r = G" and det: "detected_issues r = D"
    by (auto simp: Let_def)
  from eq gt det have DG: "set D = set G" by simp
  from ne gt have "G \<noteq> []" by simp
  then have pos: "card (set G) > 0" by (simp add: card_gt_0_iff)
  show ?thesis
    using r pos unfolding m Let_def DG by auto
qed

lemma scenario_B_result:
  "calculate_issue_detection_metrics sample_cv_text scenario_B_critique
       (Some [''vague_objective'', ''no_metrics''])
   = Inr \<lparr>precision = 1, recall = 1, f1_score = 1,
          true_positives = 2, false_positives = 0, false_negatives = 0,
          ground_truth_issues = [''vague_objective'', ''no_metrics''],
          detected_issues = [''vague_objective'', ''no_metrics''],
          missed_issues = {}, extra_mentions = {}\<rparr>"
  by code_simp

theorem perfect_detection_scores_one_witness:
  "calculate_issue_detection_metrics sample_cv_text scenario_B_critique
       (Some [''vague_objective'', ''no_metrics''])
     = Inr \<lparr>precision = 1, recall = 1, f1_score = 1,
          true_positives = 2, false_positives = 0, false_negatives = 0,
          ground_truth_issues = [''vague_objective'', ''no_metrics''],
          detected_issues = [''vague_objective'', ''no_metrics''],
          missed_issues = {}, extra_mentions = {}\<rparr>
   \<and> [''vague_objective'', ''no_metrics''] \<noteq> ([] :: string list)
   \<and> precision \<lparr>precision = 1, recall = 1, f1_score = 1,
          true_positives = 2, false_positives = 0, false_negatives = 0,
          ground_truth_issues = [''vague_objective'', ''no_metrics''],
          detected_issues = [''vague_objective'', ''no_metrics''],
          missed_issues = {}, extra_mentions = {}\<rparr> = 1"
  using perfect_detection_scores_one [OF scenario_B_result] scenario_B_result by simp

section \<open>Scenario B\<close>

text \<open>
  Claim C1, as the specification states it, fails: the critique of Scenario B contains
  \<open>vague\<close>, a keyword of \<open>vague_objective\<close>, besides \<open>quantif\<close>, so both ground-truth
  issues are detected and the scorer counts two true positives, not one.
\<close>

theorem scenario_B_counterexample:
  "calculate_issue_detection_metrics sample_cv_text scenario_B_critique
       (Some [''vague_objective'', ''no_metrics''])
     = Inr \<lparr>precision = 1, recall = 1, f1_score = 1,
          true_positives = 2, false_positives = 0, false_negatives = 0,
          ground_truth_issues = [''vague_objective'', ''no_metrics''],
          detected_issues = [''vague_objective'', ''no_metrics''],
          missed_issues = {}, extra_mentions = {}\<rparr>
   \<and> (2 :: nat) \<noteq> 1 \<and> (1 :: rat) \<noteq> 1 / 2 \<and> \<bar>(1 :: rat) - 667 / 1000\<bar> > 1 / 1000"
  using scenario_B_result by simp

text \<open>
  Claim C1, amended. For the sample document and the critique of Scenario B, with the
  ground truth \<open>vague_objective\<close>, \<open>no_metrics\<close> supplied, the scorer detects both
  \<open>vague_objective\<close> and \<open>no_metrics\<close>; it reports 2 true positives, no false
  positive and no false negative, and precision, recall and F1 are all 1.
\<close>

theorem scenario_B_detects_both:
  "\<exists>r. calculate_issue_detection_metrics sample_cv_text scenario_B_critique
          (Some [''vague_objective'', ''no_metrics'']) = Inr r
     \<and> detected_issues r = [''vague_objective'', ''no_metrics'']
     \<and> ''no_metrics'' \<in> set (detected_issues r)
     \<and> true_positives r = 2 \<and> false_positives r = 0 \<and> false_negatives r = 0
     \<and> precision r = 1 \<and> recall r = 1 \<and> f1_score r = 1"
  by (simp add: scenario_B_result)

section \<open>Ground truth outside the taxonomy\<close>

lemma mentioned_subset: "set (mentioned d t) \<subseteq> fst ` set d"
  by (induction d t rule: mentioned.induct) auto

lemma bogus_result:
  "calculate_issue_detection_metrics [] [] (Some [''bogus''])
   = Inr \<lparr>precision = 0, recall = 0, f1_score = 0,
          true_positives = 0, false_positives = 0, false_negatives = 1,
          ground_truth_issues = [''bogus''],
          detected_issues = [],
          missed_issues = {''bogus''}, extra_mentions = {}\<rparr>"
  by code_simp

lemma bogus_not_in_taxonomy: "''bogus'' \<notin> fst ` set COMMON_CV_ISSUES"
  by (simp add: COMMON_CV_ISSUES_def)

text \<open>
  Claim C2, as the specification states it, fails: the scorer has no validation of the
  ground truth. Given the list \<open>bogus\<close>, which is not a category of the taxonomy, it
  returns metrics, with \<open>bogus\<close> in the ground-truth list of the result.
\<close>

theorem unknown_ground_truth_counterexample:
  "calculate_issue_detection_metrics [] [] (Some [''bogus''])
     = Inr \<lparr>precision = 0, recall = 0, f1_score = 0,
          true_positives = 0, false_positives = 0, false_negatives = 1,
          ground_truth_issues = [''bogus''],
          detected_issues = [],
          missed_issues = {''bogus''}, extra_mentions = {}\<rparr>
   \<and> ''bogus'' \<notin> fst ` set COMMON_CV_ISSUES"
  using bogus_result bogus_not_in_taxonomy by simp

text \<open>
  Claim C2, amended. For every ground-truth list the caller supplies, the scorer returns
  metrics and never an error; the ground-truth list of the result is the supplied list,
  unchanged and unchecked; every detected issue is a category of the taxonomy; and a
  supplied identifier that is not in the taxonomy is among the missed issues.
\<close>

theorem supplied_ground_truth_unchecked:
  "\<exists>r. calculate_issue_detection_metrics cv crit (Some G) = Inr r
     \<and> ground_truth_issues r = G
     \<and> set (detected_issues r) \<subseteq> fst ` set COMMON_CV_ISSUES
     \<and> (\<forall>g \<in> set G. g \<notin> fst ` set COMMON_CV_ISSUES \<longrightarrow> g \<in> missed_issues r)"
proof -
  have G: "(case Some G of None \<Rightarrow> detect_cv_issues cv | Some given \<Rightarrow> Inr given) = Inr G"
    by simp
  define D where "D = mentioned COMMON_CV_ISSUES (lower crit)"
  have sub: "set D \<subseteq> fst ` set COMMON_CV_ISSUES"
    unfolding D_def by (rule mentioned_subset)
  then have "\<forall>g \<in> set G. g \<notin> fst ` set COMMON_CV_ISSUES \<longrightarrow> g \<in> set G - set D"
    by auto
  with sub show ?thesis
    by (simp add: metrics_Inr [OF G, of crit, folded D_def] Let_def)
qed

theorem supplied_ground_truth_unchecked_witness:
  "''bogus'' \<notin> fst ` set COMMON_CV_ISSUES
   \<and> (\<exists>r. calculate_issue_detection_metrics [] [] (Some [''bogus'']) = Inr r
        \<and> ground_truth_issues r = [''bogus'']
        \<and> ''bogus'' \<in> missed_issues r)"
  using supplied_ground_truth_unchecked [of "[]" "[]" "[''bogus'']"] bogus_not_in_taxonomy
  by auto

section \<open>What the detector can report\<close>

lemma in_vague_rule:
  "x \<in> set (vague_rule t issues) \<longleftrightarrow>
     x \<in> set issues \<or> (x = ''vague_objective''
        \<and> any_in [''seeking'', ''looking for'', ''opportunity''] t
        \<and> \<not> any_in [''specific'', ''specialize'', ''expert in''] t)"
  by (auto simp add: vague_rule_def)

lemma in_metrics_rule:
  "x \<in> set (metrics_rule cv issues) \<longleftrightarrow>
     x \<in> set issues \<or> (x = ''no_metrics'' \<and> \<not> re_search metrics_pattern cv)"
  by (auto simp add: metrics_rule_def)

lemma in_buzzword_rule:
  "x \<in> set (buzzword_rule t issues) \<longleftrightarrow>
     x \<in> set issues \<or> (x = ''buzzwords''
        \<and> length (filter (\<lambda>bw. str_contains bw t) buzzwords) \<ge> 2)"
  by (auto simp add: buzzword_rule_def)

lemma in_length_rule:
  "x \<in> set (length_rule cv issues) \<longleftrightarrow>
     x \<in> set issues \<or> (x = ''length''
        \<and> (length (py_split cv) < 200 \<or> length (py_split cv) > 1000))"
  by (auto simp add: length_rule_def Let_def)

lemma in_detect_cv_issues:
  assumes "detect_cv_issues cv = Inr issues"
  shows "x \<in> set issues \<longleftrightarrow>
       (x = ''vague_objective''
          \<and> any_in [''seeking'', ''looking for'', ''opportunity''] (lower cv)
          \<and> \<not> any_in [''specific'', ''specialize'', ''expert in''] (lower cv))
     \<or> (x = ''no_metrics'' \<and> \<not> re_search metrics_pattern cv)
     \<or> (x = ''buzzwords''
          \<and> length (filter (\<lambda>bw. str_contains bw (lower cv)) buzzwords) \<ge> 2)
     \<or> (x = ''length'' \<and> (length (py_split cv) < 200 \<or> length (py_split cv) > 1000))
     \<or> (x = ''formatting''
          \<and> (\<not> any_in [''skills'', ''technical skills'', ''competencies'', ''expertise'']
                    (lower cv)
             \<or> \<not> any_in [''experience'', ''work history'', ''employment'',
                            ''professional experience''] (lower cv)))"
proof -
  let ?base = "length_rule cv (buzzword_rule (lower cv)
                 (metrics_rule cv (vague_rule (lower cv) [])))"
  have base: "x \<in> set ?base \<longleftrightarrow>
       (x = ''vague_objective''
          \<and> any_in [''seeking'', ''looking for'', ''opportunity''] (lower cv)
          \<and> \<not> any_in [''specific'', ''specialize'', ''expert in''] (lower cv))
     \<or> (x = ''no_metrics'' \<and> \<not> re_search metrics_pattern cv)
     \<or> (x = ''buzzwords''
          \<and> length (filter (\<lambda>bw. str_contains bw (lower cv)) buzzwords) \<ge> 2)
     \<or> (x = ''length'' \<and> (length (py_split cv) < 200 \<or> length (py_split cv) > 1000))"
    by (simp only: in_length_rule in_buzzword_rule in_metrics_rule in_vague_rule) auto
  from assms have "issues =
      (if \<not> any_in [''skills'', ''technical skills'', ''competencies'', ''expertise''] (lower cv)
          \<or> \<not> any_in [''experience'', ''work history'', ''employment'',
                         ''professional experience''] (lower cv)
       then ?base @ [''formatting''] else ?base)"
    by (simp add: detect_cv_issues_eq Let_def)
  then show ?thesis
    using base by (auto split: if_splits)
qed

lemma detect_cv_issues_total: "\<exists>issues. detect_cv_issues cv = Inr issues"
  by (simp add: detect_cv_issues_eq)

text \<open>
  Claim C6. For every document the detector returns a list of issues, all of them among
  \<open>vague_objective\<close>, \<open>no_metrics\<close>, \<open>buzzwords\<close>, \<open>length\<close> and \<open>formatting\<close>;
  \<open>typos\<close>, \<open>skill_organization\<close> and \<open>relevance\<close> are never in it.
\<close>

theorem detector_reports_five_categories_only:
  "\<exists>issues. detect_cv_issues cv = Inr issues
     \<and> set issues
         \<subseteq> {''vague_objective'', ''no_metrics'', ''buzzwords'', ''length'', ''formatting''}
     \<and> ''typos'' \<notin> set issues
     \<and> ''skill_organization'' \<notin> set issues
     \<and> ''relevance'' \<notin> set issues"
proof -
  obtain issues where i: "detect_cv_issues cv = Inr issues"
    using detect_cv_issues_total by blast
  have "x \<in> {''vague_objective'', ''no_metrics'', ''buzzwords'', ''length'', ''formatting''}"
    if "x \<in> set issues" for x
    using that unfolding in_detect_cv_issues [OF i, of x]
    by (elim disjE conjE) simp_all
  then have sub: "set issues
      \<subseteq> {''vague_objective'', ''no_metrics'', ''buzzwords'', ''length'', ''formatting''}"
    by (rule subsetI)
  have t1: "''typos'' \<notin> set issues"
    by (simp add: in_detect_cv_issues [OF i])
  have t2: "''skill_organization'' \<notin> set issues"
    by (simp add: in_detect_cv_issues [OF i])
  have t3: "''relevance'' \<notin> set issues"
    by (simp add: in_detect_cv_issues [OF i])
  show ?thesis
    by (rule exI [of _ issues]) (intro conjI i sub t1 t2 t3)
qed

theorem detector_reports_five_categories_only_witness:
  "\<exists>issues. detect_cv_issues sample_cv_text = Inr issues
     \<and> set issues
         \<subseteq> {''vague_objective'', ''no_metrics'', ''buzzwords'', ''length'', ''formatting''}
     \<and> ''typos'' \<notin> set issues
     \<and> ''skill_organization'' \<notin> set issues
     \<and> ''relevance'' \<notin> set issues"
  by (rule detector_reports_five_categories_only)

section \<open>The length flag\<close>

lemma py_split_word_doc: "py_split (word_doc n) = replicate n ''word''"
  unfolding py_split_def word_doc_def
  by (induction n) (simp_all add: is_space_def)

lemma length_flag:
  "\<exists>issues. detect_cv_issues cv = Inr issues
     \<and> (''length'' \<in> set issues
          \<longleftrightarrow> length (py_split cv) < 200 \<or> length (py_split cv) > 1000)"
proof -
  obtain issues where i: "detect_cv_issues cv = Inr issues"
    using detect_cv_issues_total by blast
  show ?thesis
    using i by (simp add: in_detect_cv_issues [OF i])
qed

text \<open>
  Claim C7. For every document the detector reports \<open>length\<close> exactly when the number
  of words of the document (\<open>len(cv_text.split())\<close>) is below 200 or above 1000. In
  particular a document of 50 words and one of 1500 words get \<open>length\<close>, and one of 500
  words does not.
\<close>

theorem length_flag_iff_word_count:
  "(\<exists>issues. detect_cv_issues cv = Inr issues
      \<and> (''length'' \<in> set issues
           \<longleftrightarrow> length (py_split cv) < 200 \<or> length (py_split cv) > 1000))
   \<and> length (py_split (word_doc 50)) = 50
   \<and> (\<exists>issues. detect_cv_issues (word_doc 50) = Inr issues \<and> ''length'' \<in> set issues)
   \<and> length (py_split (word_doc 1500)) = 1500
   \<and> (\<exists>issues. detect_cv_issues (word_doc 1500) = Inr issues \<and> ''length'' \<in> set issues)
   \<and> length (py_split (word_doc 500)) = 500
   \<and> (\<exists>issues. detect_cv_issues (word_doc 500) = Inr issues \<and> ''length'' \<notin> set issues)"
proof (intro conjI)
  show "\<exists>issues. detect_cv_issues cv = Inr issues
      \<and> (''length'' \<in> set issues
           \<longleftrightarrow> length (py_split cv) < 200 \<or> length (py_split cv) > 1000)"
    by (rule length_flag)
  show "length (py_split (word_doc 50)) = 50" "length (py_split (word_doc 1500)) = 1500"
    "length (py_split (word_doc 500)) = 500"
    by (simp_all add: py_split_word_doc)
  show "\<exists>issues. detect_cv_issues (word_doc 50) = Inr issues \<and> ''length'' \<in> set issues"
    using length_flag [of "word_doc 50"] by (simp add: py_split_word_doc)
  show "\<exists>issues. detect_cv_issues (word_doc 1500) = Inr issues \<and> ''length'' \<in> set issues"
    using length_flag [of "word_doc 1500"] by (simp add: py_split_word_doc)
  show "\<exists>issues. detect_cv_issues (word_doc 500) = Inr issues \<and> ''length'' \<notin> set issues"
    using length_flag [of "word_doc 500"] by (simp add: py_split_word_doc)
qed

section \<open>No division by zero\<close>






section \<open>The best model\<close>










end
